theory Spec2Isabelle
  imports Main "HOL-Library.Sublist"
begin

section \<open>JavaScript values used by \<^verbatim>\<open>src/lib/compilers/fortran.ts\<close>\<close>

text \<open>
  An optional string (\<^verbatim>\<open>string | undefined\<close>) is a \<open>string option\<close>, \<open>None\<close> being
  \<^verbatim>\<open>undefined\<close>. JavaScript treats \<^verbatim>\<open>undefined\<close> and the empty string as falsy and
  every other string as truthy.
\<close>

definition truthy :: "string option \<Rightarrow> bool" where
  "truthy s = (case s of None \<Rightarrow> False | Some t \<Rightarrow> t \<noteq> [])"

text \<open>The expression \<^verbatim>\<open>a || d\<close> on an optional string \<^verbatim>\<open>a\<close> and a string \<^verbatim>\<open>d\<close>.\<close>

definition or_default :: "string option \<Rightarrow> string \<Rightarrow> string" where
  "or_default a d = (case a of None \<Rightarrow> d | Some t \<Rightarrow> if t = [] then d else t)"

text \<open>
  The callback of \<^verbatim>\<open>getSharedLibraryPaths\<close> returns either the boolean \<^verbatim>\<open>false\<close> or an
  array of strings, and \<^verbatim>\<open>Array.prototype.flat\<close> only opens arrays: an element that is
  not an array stays in the result as it is. The elements of the flattened array are
  therefore strings or \<^verbatim>\<open>false\<close>. String concatenation \<^verbatim>\<open>flag + entry\<close> converts
  \<^verbatim>\<open>false\<close> to the text \<^verbatim>\<open>false\<close>.
\<close>

datatype js_entry = JFalse | JString string

fun js_to_string :: "js_entry \<Rightarrow> string" where
  "js_to_string JFalse = ''false''"
| "js_to_string (JString s) = s"

text \<open>
  \<^verbatim>\<open>Array.prototype.flat\<close> (depth 1) over the callback results: \<open>None\<close> is the callback's
  \<^verbatim>\<open>false\<close>, \<open>Some paths\<close> an array.
\<close>

fun flat_entry :: "string list option \<Rightarrow> js_entry list" where
  "flat_entry None = [JFalse]"
| "flat_entry (Some paths) = map JString paths"

definition js_flat :: "string list option list \<Rightarrow> js_entry list" where
  "js_flat xs = concat (map flat_entry xs)"

section \<open>The \<^verbatim>\<open>path\<close> module of Node.js (POSIX flavour)\<close>

text \<open>
  \<^verbatim>\<open>path.join\<close>, \<^verbatim>\<open>path.dirname\<close> and \<^verbatim>\<open>path.basename\<close> belong to the platform. They
  are modelled after the POSIX implementation of Node.js: \<^verbatim>\<open>join\<close> glues the non-empty
  arguments with a slash and normalises the result (empty and \<^verbatim>\<open>.\<close> segments vanish,
  \<^verbatim>\<open>..\<close> removes the segment before it, a trailing slash is kept).
\<close>

fun split_slash :: "string \<Rightarrow> string list" where
  "split_slash [] = [[]]"
| "split_slash (c # cs) =
     (if c = CHR ''/'' then [] # split_slash cs
      else (case split_slash cs of
              [] \<Rightarrow> [[c]]
            | s # ss \<Rightarrow> (c # s) # ss))"

fun slash_join :: "string list \<Rightarrow> string" where
  "slash_join [] = []"
| "slash_join [s] = s"
| "slash_join (s # t # ss) = s @ ''/'' @ slash_join (t # ss)"

text \<open>
  \<^verbatim>\<open>normalizeString\<close>: the stack \<open>st\<close> holds the segments kept so far, the last one
  first.
\<close>

fun normalize_segments :: "bool \<Rightarrow> string list \<Rightarrow> string list \<Rightarrow> string list" where
  "normalize_segments allowAboveRoot st [] = rev st"
| "normalize_segments allowAboveRoot st (s # ss) =
     (if s = [] \<or> s = ''.'' then normalize_segments allowAboveRoot st ss
      else if s = ''..'' then
        (case st of
           [] \<Rightarrow> normalize_segments allowAboveRoot (if allowAboveRoot then [''..''] else []) ss
         | t # ts \<Rightarrow>
             if t \<noteq> ''..'' then normalize_segments allowAboveRoot ts ss
             else normalize_segments allowAboveRoot
                    (if allowAboveRoot then ''..'' # st else st) ss)
      else normalize_segments allowAboveRoot (s # st) ss)"

definition path_normalize :: "string \<Rightarrow> string" where
  "path_normalize p =
     (if p = [] then ''.''
      else
        let isAbsolute = (hd p = CHR ''/'');
            trailingSeparator = (last p = CHR ''/'');
            q = slash_join (normalize_segments (\<not> isAbsolute) [] (split_slash p))
        in if q = [] then (if isAbsolute then ''/'' else if trailingSeparator then ''./'' else ''.'')
           else (if isAbsolute then ''/'' else []) @ q @ (if trailingSeparator then ''/'' else []))"

definition path_join :: "string list \<Rightarrow> string" where
  "path_join args =
     (let parts = filter (\<lambda>arg. arg \<noteq> []) args
      in if parts = [] then ''.'' else path_normalize (slash_join parts))"

definition path_basename :: "string \<Rightarrow> string" where
  "path_basename p =
     rev (takeWhile (\<lambda>c. c \<noteq> CHR ''/'') (dropWhile (\<lambda>c. c = CHR ''/'') (rev p)))"

definition path_dirname :: "string \<Rightarrow> string" where
  "path_dirname p =
     (if p = [] then ''.''
      else
        let hasRoot = (hd p = CHR ''/'');
            r = dropWhile (\<lambda>c. c \<noteq> CHR ''/'') (dropWhile (\<lambda>c. c = CHR ''/'') (rev (tl p)))
        in if r = [] then (if hasRoot then ''/'' else ''.'')
           else if hasRoot \<and> length r = 1 then ''//''
           else take (length r) p)"

section \<open>The \<^verbatim>\<open>union\<close> of underscore.js\<close>

text \<open>
  \<^verbatim>\<open>_.union(a1, ..., an)\<close> is \<^verbatim>\<open>_.uniq\<close> of the concatenated arrays. \<^verbatim>\<open>_.uniq\<close> runs
  over the array once and pushes a value onto \<^verbatim>\<open>result\<close> unless \<^verbatim>\<open>result\<close> already
  contains it.
\<close>

definition uniq_step :: "'a \<Rightarrow> 'a list \<Rightarrow> 'a list" where
  "uniq_step v result = (if v \<in> set result then result else result @ [v])"

definition underscore_uniq :: "'a list \<Rightarrow> 'a list" where
  "underscore_uniq xs = fold uniq_step xs []"

definition underscore_union :: "'a list list \<Rightarrow> 'a list" where
  "underscore_union arrays = underscore_uniq (concat arrays)"

section \<open>Data model\<close>

text \<open>
  A requested library (\<^verbatim>\<open>CompileChildLibraries\<close>, \<^verbatim>\<open>SelectedLibraryVersion\<close>): the code
  reads its \<^verbatim>\<open>id\<close> and hands the whole object to \<^verbatim>\<open>findLibVersion\<close>. The field is
  named \<open>id'\<close> here because \<open>id\<close> is the identity function of HOL.
\<close>

record selected_library =
  id' :: string
  version :: string

text \<open>The fields of a library version that \<^verbatim>\<open>fortran.ts\<close> reads.\<close>

record library_version =
  path :: "string list"
  libpath :: "string list"
  packagedheaders :: bool

text \<open>The fields of \<^verbatim>\<open>this.compiler\<close> that \<^verbatim>\<open>fortran.ts\<close> reads.\<close>

record compiler_info =
  includeFlag :: "string option"
  rpathFlag :: "string option"
  libpathFlag :: "string option"
  libPath :: "string list"

record buildenv =
  extractAllToRoot :: bool

record exec_options =
  customCwd :: "string option"
  env :: "(string \<times> string) list"

text \<open>
  Modelled from the spec: the types of what the execution primitive returns for a child
  process that ran and of what \<^verbatim>\<open>runCompiler\<close> returns (their declarations, imported
  from \<^verbatim>\<open>compilation.interfaces\<close>, are not among the sources). As in the
  \<^verbatim>\<open>CompilationOutcome\<close> of the specification the exit code is an integer and the
  streams are strings.
\<close>

record exec_result =
  code :: int
  stdout :: string
  stderr :: string

record compilation_result = exec_result +
  inputFilename :: string

text \<open>A child process that could not be launched: the promise of \<^verbatim>\<open>exec\<close> rejects.\<close>

datatype exec_failure = LaunchFailure string

text \<open>
  The compiler object \<^verbatim>\<open>this\<close>. Everything \<^verbatim>\<open>fortran.ts\<close> takes from its base class,
  from \<^verbatim>\<open>utils\<close> and from the file system is a field: the configuration, the library
  registry \<^verbatim>\<open>findLibVersion\<close> (\<open>None\<close> when it finds nothing), the dependency sort
  \<^verbatim>\<open>getSortedStaticLibraries\<close>, the file system probe \<^verbatim>\<open>fs.existsSync\<close>, the process
  primitive \<^verbatim>\<open>exec\<close> and the output post-processing \<^verbatim>\<open>utils.parseOutput\<close>.
\<close>

record fortran_compiler =
  compiler :: compiler_info
  defaultRpathFlag :: string
  buildenvsetup :: "buildenv option"
  findLibVersion :: "selected_library \<Rightarrow> library_version option"
  getSortedStaticLibraries :: "selected_library list \<Rightarrow> string list"
  existsSync :: "string \<Rightarrow> bool"
  getDefaultExecOptions :: exec_options
  exec :: "string \<Rightarrow> string list \<Rightarrow> exec_options \<Rightarrow> exec_failure + exec_result"
  parseOutput :: "string \<Rightarrow> string \<Rightarrow> string"

section \<open>The Fortran compiler driver\<close>

subsection \<open>\<^verbatim>\<open>getExactStaticLibNameAndPath\<close>\<close>

text \<open>The loop over \<^verbatim>\<open>libPaths\<close>: the first directory that holds the file wins.\<close>

fun probe_directories :: "fortran_compiler \<Rightarrow> string \<Rightarrow> string list \<Rightarrow> string" where
  "probe_directories self libFilename [] = []"
| "probe_directories self libFilename (dir # dirs) =
     (let testpath = path_join [dir, libFilename]
      in if existsSync self testpath then testpath
         else probe_directories self libFilename dirs)"

definition getExactStaticLibNameAndPath ::
  "fortran_compiler \<Rightarrow> string \<Rightarrow> string list \<Rightarrow> string" where
  "getExactStaticLibNameAndPath self lib libPaths =
     (let libFilename = ''lib'' @ lib @ ''.a''
      in probe_directories self libFilename libPaths)"

subsection \<open>\<^verbatim>\<open>getStaticLibraryLinks\<close>\<close>

text \<open>
  The filter \<^verbatim>\<open>lib => lib\<close> keeps the truthy names, that is the non-empty ones, and runs
  before the names are resolved. A caller that leaves \<^verbatim>\<open>libPaths\<close> out passes the empty
  list (the default of the parameter).
\<close>

definition getStaticLibraryLinks ::
  "fortran_compiler \<Rightarrow> selected_library list \<Rightarrow> string list \<Rightarrow> string list" where
  "getStaticLibraryLinks self libraries libPaths =
     map (\<lambda>lib. getExactStaticLibNameAndPath self lib libPaths)
       (filter (\<lambda>lib. lib \<noteq> []) (getSortedStaticLibraries self libraries))"

subsection \<open>\<^verbatim>\<open>getSharedLibraryPaths\<close>\<close>

text \<open>
  The guarded \<^verbatim>\<open>paths.push\<close>: the condition is
  \<^verbatim>\<open>this.buildenvsetup && !this.buildenvsetup.extractAllToRoot && dirPath\<close>.
\<close>

definition pushed_lib_path ::
  "fortran_compiler \<Rightarrow> selected_library \<Rightarrow> string option \<Rightarrow> string list" where
  "pushed_lib_path self selectedLib dirPath =
     (case buildenvsetup self of
        None \<Rightarrow> []
      | Some b \<Rightarrow>
          if extractAllToRoot b then []
          else (case dirPath of
                  None \<Rightarrow> []
                | Some d \<Rightarrow> if d = [] then [] else [path_join [d, id' selectedLib, ''lib'']]))"

text \<open>The callback of \<^verbatim>\<open>libraries.map\<close>: \<open>None\<close> is its \<^verbatim>\<open>return false\<close>.\<close>

definition shared_paths_of ::
  "fortran_compiler \<Rightarrow> string option \<Rightarrow> selected_library \<Rightarrow> string list option" where
  "shared_paths_of self dirPath selectedLib =
     (case findLibVersion self selectedLib of
        None \<Rightarrow> None
      | Some foundVersion \<Rightarrow>
          Some (libpath foundVersion @ pushed_lib_path self selectedLib dirPath))"

definition getSharedLibraryPaths ::
  "fortran_compiler \<Rightarrow> selected_library list \<Rightarrow> string option \<Rightarrow> js_entry list" where
  "getSharedLibraryPaths self libraries dirPath =
     js_flat (map (shared_paths_of self dirPath) libraries)"

subsection \<open>\<^verbatim>\<open>getIncludeArguments\<close>\<close>

text \<open>The callback of \<^verbatim>\<open>libraries.flatMap\<close>, given the include flag already chosen.\<close>

definition include_arguments_of ::
  "fortran_compiler \<Rightarrow> string \<Rightarrow> string \<Rightarrow> selected_library \<Rightarrow> string list" where
  "include_arguments_of self flag dirPath selectedLib =
     (case findLibVersion self selectedLib of
        None \<Rightarrow> []
      | Some foundVersion \<Rightarrow>
          map (\<lambda>p. flag @ p) (path foundVersion) @
          (if packagedheaders foundVersion then
             (let modPath = path_join [dirPath, id' selectedLib, ''mod''];
                  includePath = path_join [dirPath, id' selectedLib, ''include'']
              in [''-I'' @ modPath, flag @ includePath])
           else []))"

definition getIncludeArguments ::
  "fortran_compiler \<Rightarrow> selected_library list \<Rightarrow> string \<Rightarrow> string list" where
  "getIncludeArguments self libraries dirPath =
     (let flag = or_default (includeFlag (compiler self)) ''-I''
      in concat (map (include_arguments_of self flag dirPath) libraries))"

subsection \<open>\<^verbatim>\<open>getSharedLibraryPathsAsArguments\<close>\<close>

definition toolchainLibraryPaths :: "string option \<Rightarrow> string list" where
  "toolchainLibraryPaths toolchainPath =
     (case toolchainPath of
        None \<Rightarrow> []
      | Some t \<Rightarrow>
          if t = [] then [] else [path_join [t, ''/lib64''], path_join [t, ''/lib32'']])"

text \<open>The six arrays handed to \<^verbatim>\<open>_.union\<close>, in the order of the call.\<close>

definition shared_argument_groups ::
  "fortran_compiler \<Rightarrow> selected_library list \<Rightarrow> string option \<Rightarrow> string option \<Rightarrow>
     string option \<Rightarrow> string list list" where
  "shared_argument_groups self libraries libDownloadPath toolchainPath dirPath =
     (let pathFlag = or_default (rpathFlag (compiler self)) (defaultRpathFlag self);
          libPathFlag = or_default (libpathFlag (compiler self)) ''-L'';
          downloadPath = or_default libDownloadPath ''./lib''
      in [[libPathFlag @ downloadPath],
          [pathFlag @ downloadPath],
          map (\<lambda>p. pathFlag @ p) (libPath (compiler self)),
          map (\<lambda>p. pathFlag @ p) (toolchainLibraryPaths toolchainPath),
          map (\<lambda>p. pathFlag @ js_to_string p) (getSharedLibraryPaths self libraries dirPath),
          map (\<lambda>p. libPathFlag @ js_to_string p) (getSharedLibraryPaths self libraries dirPath)])"

definition getSharedLibraryPathsAsArguments ::
  "fortran_compiler \<Rightarrow> selected_library list \<Rightarrow> string option \<Rightarrow> string option \<Rightarrow>
     string option \<Rightarrow> string list" where
  "getSharedLibraryPathsAsArguments self libraries libDownloadPath toolchainPath dirPath =
     underscore_union
       (shared_argument_groups self libraries libDownloadPath toolchainPath dirPath)"

subsection \<open>\<^verbatim>\<open>runCompiler\<close>\<close>

text \<open>
  The options the child process is started with: the caller's, or the defaults when the
  caller gave none, with \<^verbatim>\<open>customCwd\<close> overwritten.
\<close>

definition prepared_exec_options ::
  "fortran_compiler \<Rightarrow> string \<Rightarrow> exec_options option \<Rightarrow> exec_options" where
  "prepared_exec_options self inputFile execOptions =
     (case execOptions of
        None \<Rightarrow> getDefaultExecOptions self
      | Some given \<Rightarrow> given)
     \<lparr>customCwd := Some (path_dirname inputFile)\<rparr>"

text \<open>
  \<^verbatim>\<open>runCompiler\<close> awaits \<^verbatim>\<open>exec\<close>; a rejected promise is \<open>Inl\<close> and passes through. The
  spread \<^verbatim>\<open>...result\<close> copies the exit code; \<^verbatim>\<open>stdout\<close>, \<^verbatim>\<open>stderr\<close> and
  \<^verbatim>\<open>inputFilename\<close> are set after it. The parameter \<^verbatim>\<open>inputFilename\<close> is called
  \<open>inputFile\<close>, the name being taken by the field of the result.
\<close>

definition runCompiler ::
  "fortran_compiler \<Rightarrow> string \<Rightarrow> string list \<Rightarrow> string \<Rightarrow> exec_options option \<Rightarrow>
     exec_failure + compilation_result" where
  "runCompiler self compilerExe options inputFile execOptions =
     (case exec self compilerExe options (prepared_exec_options self inputFile execOptions) of
        Inl failure \<Rightarrow> Inl failure
      | Inr result \<Rightarrow>
          (let baseFilename = ''./'' @ path_basename inputFile
           in Inr \<lparr>code = code result,
                   stdout = parseOutput self (stdout result) baseFilename,
                   stderr = parseOutput self (stderr result) baseFilename,
                   inputFilename = inputFile\<rparr>))"

section \<open>Notions of the specification\<close>

text \<open>
  First occurrence wins: the entry at position \<open>i\<close> is kept exactly when it does not occur
  among the \<open>i\<close> entries before it, and the kept entries stay in their order.
\<close>

definition first_occurrences :: "'a list \<Rightarrow> 'a list" where
  "first_occurrences xs =
     map (\<lambda>i. xs ! i) (filter (\<lambda>i. xs ! i \<notin> set (take i xs)) [0..<length xs])"

text \<open>
  The resolved shared-library paths of a request: a library without version metadata
  has none; a resolved library has its own \<^verbatim>\<open>libpath\<close> entries and the path pushed
  after them.
\<close>

definition resolved_shared_paths ::
  "fortran_compiler \<Rightarrow> selected_library list \<Rightarrow> string option \<Rightarrow> string list" where
  "resolved_shared_paths self libraries dirPath =
     concat (map (\<lambda>selectedLib.
       case findLibVersion self selectedLib of
         None \<Rightarrow> []
       | Some foundVersion \<Rightarrow> libpath foundVersion @ pushed_lib_path self selectedLib dirPath)
       libraries)"

text \<open>
  The union of the six groups as the specification lists them, the last two over the
  resolved shared-library paths, with first occurrence winning.
\<close>

definition six_groups_union ::
  "fortran_compiler \<Rightarrow> selected_library list \<Rightarrow> string option \<Rightarrow> string option \<Rightarrow>
     string option \<Rightarrow> string list" where
  "six_groups_union self libraries libDownloadPath toolchainPath dirPath =
     (let pathFlag = or_default (rpathFlag (compiler self)) (defaultRpathFlag self);
          libPathFlag = or_default (libpathFlag (compiler self)) ''-L'';
          downloadPath = or_default libDownloadPath ''./lib'';
          resolved = resolved_shared_paths self libraries dirPath
      in first_occurrences
           ([libPathFlag @ downloadPath] @
            [pathFlag @ downloadPath] @
            map (\<lambda>p. pathFlag @ p) (libPath (compiler self)) @
            map (\<lambda>p. pathFlag @ p) (toolchainLibraryPaths toolchainPath) @
            map (\<lambda>p. pathFlag @ p) resolved @
            map (\<lambda>p. libPathFlag @ p) resolved))"

text \<open>
  Rewriting every textual occurrence of a non-empty \<open>pat\<close> in a text to \<open>rep\<close>, from left
  to right; the rest of the text is untouched.
\<close>

function replace_all :: "string \<Rightarrow> string \<Rightarrow> string \<Rightarrow> string" where
  "replace_all pat rep [] = []"
| "replace_all pat rep (c # cs) =
     (if pat \<noteq> [] \<and> prefix pat (c # cs)
      then rep @ replace_all pat rep (drop (length pat) (c # cs))
      else c # replace_all pat rep cs)"
  by pat_completeness auto
termination
  by (relation "measure (\<lambda>(pat, rep, text). length text)") auto

section \<open>A concrete installation\<close>

text \<open>
  A registry that knows two libraries, \<^verbatim>\<open>fmt\<close> with packaged headers and \<^verbatim>\<open>json\<close>
  without, whose library paths overlap; a file system with three archives; a compiler
  with the default flags. The dependency sort of this installation returns the
  identifiers of the requested libraries in the order of the request, and its output
  post-processing rewrites the file name it is given to \<^verbatim>\<open><source>\<close>.
\<close>

definition example_registry :: "selected_library \<Rightarrow> library_version option" where
  "example_registry selectedLib =
     (if id' selectedLib = ''fmt'' then
        Some \<lparr>path = [''/opt/fmt/include''], libpath = [''/opt/fmt/lib''],
              packagedheaders = True\<rparr>
      else if id' selectedLib = ''json'' then
        Some \<lparr>path = [''/opt/json/include''], libpath = [''/opt/fmt/lib'', ''/opt/json/lib''],
              packagedheaders = False\<rparr>
      else None)"

definition example_files :: "string \<Rightarrow> bool" where
  "example_files p = (p = ''/B/liblapack.a'' \<or> p = ''/B/libblas.a'' \<or> p = ''/C/libblas.a'')"

text \<open>
  A child process that fails with exit status 1 and names the source file in both
  streams, whatever its arguments; any other executable cannot be launched.
\<close>

definition example_exec ::
  "string \<Rightarrow> string list \<Rightarrow> exec_options \<Rightarrow> exec_failure + exec_result" where
  "example_exec compilerExe options execOptions =
     (if compilerExe = ''gfortran'' then
        Inr \<lparr>code = 1,
             stdout = ''/a/prog.f90:1: included from /b/prog.f90'',
             stderr = ''./prog.f90:2:3: Error in /tmp/work/prog.f90''\<rparr>
      else Inl (LaunchFailure ''ENOENT''))"

definition example_compiler :: fortran_compiler where
  "example_compiler =
     \<lparr>compiler = \<lparr>includeFlag = None, rpathFlag = None, libpathFlag = None,
                  libPath = [''/usr/lib'']\<rparr>,
      defaultRpathFlag = ''-Wl,-rpath,'',
      buildenvsetup = Some \<lparr>extractAllToRoot = False\<rparr>,
      findLibVersion = example_registry,
      getSortedStaticLibraries = map id',
      existsSync = example_files,
      getDefaultExecOptions = \<lparr>customCwd = None, env = []\<rparr>,
      exec = example_exec,
      parseOutput = (\<lambda>lines inputName. replace_all inputName ''<source>'' lines)\<rparr>"

definition fmt_library :: selected_library where
  "fmt_library = \<lparr>id' = ''fmt'', version = ''10''\<rparr>"

definition json_library :: selected_library where
  "json_library = \<lparr>id' = ''json'', version = ''3''\<rparr>"

definition netcdf_library :: selected_library where
  "netcdf_library = \<lparr>id' = ''netcdf'', version = ''4''\<rparr>"

definition blas_library :: selected_library where
  "blas_library = \<lparr>id' = ''blas'', version = ''1''\<rparr>"

text \<open>The same installation with a custom include flag.\<close>

definition isystem_compiler :: fortran_compiler where
  "isystem_compiler =
     example_compiler\<lparr>compiler := (compiler example_compiler)\<lparr>includeFlag := Some ''-isystem''\<rparr>\<rparr>"

text \<open>
  The same installation with the runtime-path flag configured to the string that is also
  the library-search-path flag.
\<close>

definition same_flag_compiler :: fortran_compiler where
  "same_flag_compiler =
     example_compiler\<lparr>compiler := (compiler example_compiler)\<lparr>rpathFlag := Some ''-L''\<rparr>\<rparr>"

section \<open>Facts about the concrete installation\<close>

lemma example_joined_paths:
  "path_join [''/A'', ''liblapack.a''] = ''/A/liblapack.a''"
  "path_join [''/B'', ''liblapack.a''] = ''/B/liblapack.a''"
  "path_join [''/A'', ''libnetcdf.a''] = ''/A/libnetcdf.a''"
  "path_join [''/B'', ''libnetcdf.a''] = ''/B/libnetcdf.a''"
  "path_join [''/A'', ''libblas.a''] = ''/A/libblas.a''"
  "path_join [''/B'', ''libblas.a''] = ''/B/libblas.a''"
  "path_join [''/tmp/dl'', ''fmt'', ''lib''] = ''/tmp/dl/fmt/lib''"
  "path_join [''/tmp/dl'', ''json'', ''lib''] = ''/tmp/dl/json/lib''"
  "path_join [''/tmp/dl'', ''fmt'', ''mod''] = ''/tmp/dl/fmt/mod''"
  "path_join [''/tmp/dl'', ''fmt'', ''include''] = ''/tmp/dl/fmt/include''"
  "path_join [''/opt/gcc'', ''/lib64''] = ''/opt/gcc/lib64''"
  "path_join [''/opt/gcc'', ''/lib32''] = ''/opt/gcc/lib32''"
  by code_simp+

lemma example_compiler_fields:
  "compiler example_compiler =
     \<lparr>includeFlag = None, rpathFlag = None, libpathFlag = None, libPath = [''/usr/lib'']\<rparr>"
  "defaultRpathFlag example_compiler = ''-Wl,-rpath,''"
  "buildenvsetup example_compiler = Some \<lparr>extractAllToRoot = False\<rparr>"
  "findLibVersion example_compiler = example_registry"
  "getSortedStaticLibraries example_compiler = map id'"
  "existsSync example_compiler = example_files"
  "getDefaultExecOptions example_compiler = \<lparr>customCwd = None, env = []\<rparr>"
  "exec example_compiler = example_exec"
  "parseOutput example_compiler =
     (\<lambda>lines inputName. replace_all inputName ''<source>'' lines)"
  by (simp_all add: example_compiler_def)

lemma example_registry_values:
  "example_registry fmt_library =
     Some \<lparr>path = [''/opt/fmt/include''], libpath = [''/opt/fmt/lib''], packagedheaders = True\<rparr>"
  "example_registry json_library =
     Some \<lparr>path = [''/opt/json/include''], libpath = [''/opt/fmt/lib'', ''/opt/json/lib''],
           packagedheaders = False\<rparr>"
  "example_registry netcdf_library = None"
  "example_registry blas_library = None"
  by (simp_all add: example_registry_def fmt_library_def json_library_def netcdf_library_def
      blas_library_def)

section \<open>Locating a static archive\<close>

lemma probe_directories_none:
  "\<not> (\<exists>dir \<in> set dirs. existsSync self (path_join [dir, f])) \<Longrightarrow>
   probe_directories self f dirs = []"
  by (induction dirs) (simp_all add: Let_def)

lemma probe_directories_first:
  "\<not> (\<exists>d \<in> set before. existsSync self (path_join [d, f])) \<Longrightarrow>
   existsSync self (path_join [dir, f]) \<Longrightarrow>
   probe_directories self f (before @ dir # after) = path_join [dir, f]"
  by (induction before) (simp_all add: Let_def)

text \<open>
  Claim C4. \<^verbatim>\<open>getExactStaticLibNameAndPath\<close> returns the joined path of the directory
  and \<^verbatim>\<open>lib<name>.a\<close> for the first directory of the list, in list order, in which that
  file exists, and the empty string when no listed directory holds the file. The function
  is total and its result is a plain string: the empty result is a value, not an error.
\<close>

theorem getExactStaticLibNameAndPath_first_existing:
  "(\<not> (\<exists>dir \<in> set libPaths. existsSync self (path_join [dir, ''lib'' @ lib @ ''.a'']))
      \<longrightarrow> getExactStaticLibNameAndPath self lib libPaths = []) \<and>
   (\<forall>before dir after.
      libPaths = before @ dir # after \<and>
      \<not> (\<exists>d \<in> set before. existsSync self (path_join [d, ''lib'' @ lib @ ''.a''])) \<and>
      existsSync self (path_join [dir, ''lib'' @ lib @ ''.a''])
      \<longrightarrow> getExactStaticLibNameAndPath self lib libPaths =
            path_join [dir, ''lib'' @ lib @ ''.a''])"
  unfolding getExactStaticLibNameAndPath_def Let_def
  using probe_directories_none probe_directories_first by blast

theorem getExactStaticLibNameAndPath_first_existing_witness:
  "getExactStaticLibNameAndPath example_compiler ''lapack'' [''/A'', ''/B''] = ''/B/liblapack.a'' \<and>
   getExactStaticLibNameAndPath example_compiler ''netcdf'' [''/A'', ''/B''] = []"
proof -
  have none: "\<not> (\<exists>dir \<in> set [''/A'', ''/B''].
      existsSync example_compiler (path_join [dir, ''lib'' @ ''netcdf'' @ ''.a'']))"
    by (simp add: example_compiler_fields example_files_def example_joined_paths)
  have notA: "\<not> (\<exists>d \<in> set [''/A''].
      existsSync example_compiler (path_join [d, ''lib'' @ ''lapack'' @ ''.a'']))"
    by (simp add: example_compiler_fields example_files_def example_joined_paths)
  have inB: "existsSync example_compiler (path_join [''/B'', ''lib'' @ ''lapack'' @ ''.a''])"
    by (simp add: example_compiler_fields example_files_def example_joined_paths)
  have "getExactStaticLibNameAndPath example_compiler ''lapack'' [''/A'', ''/B''] =
      path_join [''/B'', ''lib'' @ ''lapack'' @ ''.a'']"
    using getExactStaticLibNameAndPath_first_existing
      [of "[''/A'', ''/B'']" example_compiler "''lapack''"] notA inB
    by (metis append_Cons append_Nil)
  moreover have "getExactStaticLibNameAndPath example_compiler ''netcdf'' [''/A'', ''/B''] = []"
    using getExactStaticLibNameAndPath_first_existing
      [of "[''/A'', ''/B'']" example_compiler "''netcdf''"] none
    by blast
  ultimately show ?thesis by (simp add: example_joined_paths)
qed

section \<open>Static link arguments\<close>

lemma getExactStaticLibNameAndPath_none:
  "\<not> (\<exists>dir \<in> set libPaths. existsSync self (path_join [dir, ''lib'' @ lib @ ''.a''])) \<Longrightarrow>
   getExactStaticLibNameAndPath self lib libPaths = []"
  by (simp add: getExactStaticLibNameAndPath_def Let_def probe_directories_none)

lemma example_static_links:
  "getStaticLibraryLinks example_compiler [blas_library, netcdf_library] [''/A'', ''/B''] =
     [''/B/libblas.a'', []]"
  by (simp add: getStaticLibraryLinks_def getExactStaticLibNameAndPath_def Let_def
      example_compiler_fields example_files_def example_joined_paths blas_library_def
      netcdf_library_def)

text \<open>
  Claim C2, as stated, fails. The filter of \<^verbatim>\<open>getStaticLibraryLinks\<close> runs on the names,
  before they are resolved, and nothing filters afterwards: a library whose archive is in
  no search directory is not excluded, its slot holds the empty string. Here \<^verbatim>\<open>netcdf\<close> has
  no archive in \<^verbatim>\<open>/A\<close> or \<^verbatim>\<open>/B\<close>, and the vector has two entries, the second one empty.
\<close>

theorem getStaticLibraryLinks_emits_empty_counterexample:
  "getStaticLibraryLinks example_compiler [blas_library, netcdf_library] [''/A'', ''/B''] =
     [''/B/libblas.a'', []] \<and>
   \<not> existsSync example_compiler (path_join [''/A'', ''lib'' @ id' netcdf_library @ ''.a'']) \<and>
   \<not> existsSync example_compiler (path_join [''/B'', ''lib'' @ id' netcdf_library @ ''.a''])"
proof -
  have "id' netcdf_library = ''netcdf''"
    by (simp add: netcdf_library_def)
  then have "\<not> existsSync example_compiler (path_join [''/A'', ''lib'' @ id' netcdf_library @ ''.a''])"
    and "\<not> existsSync example_compiler (path_join [''/B'', ''lib'' @ id' netcdf_library @ ''.a''])"
    by (simp_all add: example_compiler_fields example_files_def example_joined_paths)
  with example_static_links show ?thesis by blast
qed

text \<open>
  Claim C2, amended. The static-link vector has exactly one entry for every non-empty name
  that \<^verbatim>\<open>getSortedStaticLibraries\<close> delivers, in the same order; the entry is the result
  of \<^verbatim>\<open>getExactStaticLibNameAndPath\<close> for that name, and it is the empty string when no
  search directory contains \<^verbatim>\<open>lib<name>.a\<close>. Only empty names are dropped.
\<close>

theorem getStaticLibraryLinks_one_entry_per_name:
  "length (getStaticLibraryLinks self libraries libPaths) =
     length (filter (\<lambda>lib. lib \<noteq> []) (getSortedStaticLibraries self libraries)) \<and>
   (\<forall>i < length (filter (\<lambda>lib. lib \<noteq> []) (getSortedStaticLibraries self libraries)).
      getStaticLibraryLinks self libraries libPaths ! i =
        getExactStaticLibNameAndPath self
          (filter (\<lambda>lib. lib \<noteq> []) (getSortedStaticLibraries self libraries) ! i) libPaths \<and>
      (\<not> (\<exists>dir \<in> set libPaths. existsSync self (path_join [dir,
            ''lib'' @ filter (\<lambda>lib. lib \<noteq> []) (getSortedStaticLibraries self libraries) ! i @ ''.a'']))
        \<longrightarrow> getStaticLibraryLinks self libraries libPaths ! i = []))"
  by (simp add: getStaticLibraryLinks_def getExactStaticLibNameAndPath_none)

theorem getStaticLibraryLinks_one_entry_per_name_witness:
  "length (getStaticLibraryLinks example_compiler [blas_library, netcdf_library] [''/A'', ''/B'']) = 2 \<and>
   getStaticLibraryLinks example_compiler [blas_library, netcdf_library] [''/A'', ''/B''] ! 1 = []"
proof -
  let ?names = "filter (\<lambda>lib. lib \<noteq> [])
      (getSortedStaticLibraries example_compiler [blas_library, netcdf_library])"
  have names: "?names = [''blas'', ''netcdf'']"
    by (simp add: example_compiler_fields blas_library_def netcdf_library_def)
  have missing: "\<not> (\<exists>dir \<in> set [''/A'', ''/B''].
      existsSync example_compiler (path_join [dir, ''lib'' @ ?names ! 1 @ ''.a'']))"
    unfolding names
    by (simp add: example_compiler_fields example_files_def example_joined_paths)
  have one: "1 < length ?names"
    unfolding names by simp
  note fact = getStaticLibraryLinks_one_entry_per_name
    [of example_compiler "[blas_library, netcdf_library]" "[''/A'', ''/B'']"]
  from fact have "length (getStaticLibraryLinks example_compiler [blas_library, netcdf_library]
      [''/A'', ''/B'']) = length ?names"
    by blast
  moreover from fact one missing
  have "getStaticLibraryLinks example_compiler [blas_library, netcdf_library] [''/A'', ''/B''] ! 1 = []"
    by blast
  ultimately show ?thesis
    unfolding names by simp
qed

section \<open>Shared library paths and include arguments, library by library\<close>

lemma getSharedLibraryPaths_append:
  "getSharedLibraryPaths self (before @ after) dirPath =
     getSharedLibraryPaths self before dirPath @ getSharedLibraryPaths self after dirPath"
  by (simp add: getSharedLibraryPaths_def js_flat_def)

lemma getSharedLibraryPaths_Cons:
  "getSharedLibraryPaths self (selectedLib # after) dirPath =
     flat_entry (shared_paths_of self dirPath selectedLib) @
     getSharedLibraryPaths self after dirPath"
  by (simp add: getSharedLibraryPaths_def js_flat_def)

lemma getSharedLibraryPaths_unresolved:
  "findLibVersion self selectedLib = None \<Longrightarrow>
   getSharedLibraryPaths self (before @ selectedLib # after) dirPath =
     getSharedLibraryPaths self before dirPath @ JFalse #
     getSharedLibraryPaths self after dirPath"
  by (simp add: getSharedLibraryPaths_append getSharedLibraryPaths_Cons shared_paths_of_def)

lemma getIncludeArguments_append:
  "getIncludeArguments self (before @ after) dirPath =
     getIncludeArguments self before dirPath @ getIncludeArguments self after dirPath"
  by (simp add: getIncludeArguments_def Let_def)

lemma getIncludeArguments_Cons:
  "getIncludeArguments self (selectedLib # after) dirPath =
     include_arguments_of self (or_default (includeFlag (compiler self)) ''-I'') dirPath
       selectedLib @
     getIncludeArguments self after dirPath"
  by (simp add: getIncludeArguments_def Let_def)

lemma getIncludeArguments_unresolved:
  "findLibVersion self selectedLib = None \<Longrightarrow>
   getIncludeArguments self (before @ selectedLib # after) dirPath =
     getIncludeArguments self (before @ after) dirPath"
  by (simp add: getIncludeArguments_append getIncludeArguments_Cons include_arguments_of_def)

text \<open>
  Claim C1 holds for the include arguments (\<open>getIncludeArguments_unresolved\<close>) and fails
  for the shared library paths (\<open>getSharedLibraryPaths_unresolved\<close>): for a library
  without version metadata the callback returns \<^verbatim>\<open>false\<close>, which \<^verbatim>\<open>flat()\<close> leaves in the
  array. The registry of the concrete installation does not know \<^verbatim>\<open>netcdf\<close>; requested
  alone, it contributes nothing to the include arguments, the entry \<^verbatim>\<open>false\<close> to the
  shared library paths, and the two tokens \<^verbatim>\<open>-Wl,-rpath,false\<close> and \<^verbatim>\<open>-Lfalse\<close> to the
  argument vector.
\<close>

theorem getSharedLibraryPaths_unresolved_leaves_false:
  "findLibVersion example_compiler netcdf_library = None \<and>
   getIncludeArguments example_compiler [netcdf_library] ''/tmp/dl'' = [] \<and>
   getSharedLibraryPaths example_compiler [netcdf_library] (Some ''/tmp/dl'') = [JFalse] \<and>
   getSharedLibraryPaths example_compiler [] (Some ''/tmp/dl'') = [] \<and>
   getSharedLibraryPathsAsArguments example_compiler [netcdf_library] None None (Some ''/tmp/dl'') =
     [''-L./lib'', ''-Wl,-rpath,./lib'', ''-Wl,-rpath,/usr/lib'', ''-Wl,-rpath,false'', ''-Lfalse''] \<and>
   getSharedLibraryPathsAsArguments example_compiler [] None None (Some ''/tmp/dl'') =
     [''-L./lib'', ''-Wl,-rpath,./lib'', ''-Wl,-rpath,/usr/lib'']"
proof -
  have unresolved: "findLibVersion example_compiler netcdf_library = None"
    by (simp add: example_compiler_fields example_registry_values)
  have include_args: "getIncludeArguments example_compiler [netcdf_library] ''/tmp/dl'' = []"
    using getIncludeArguments_unresolved [OF unresolved, of "[]" "[]"]
    by (simp add: getIncludeArguments_def)
  have none: "getSharedLibraryPaths example_compiler [] (Some ''/tmp/dl'') = []"
    by (simp add: getSharedLibraryPaths_def js_flat_def)
  have shared: "getSharedLibraryPaths example_compiler [netcdf_library] (Some ''/tmp/dl'') = [JFalse]"
    using getSharedLibraryPaths_unresolved [OF unresolved, of "[]" "[]"] none
    by simp
  have arguments: "getSharedLibraryPathsAsArguments example_compiler [netcdf_library] None None
      (Some ''/tmp/dl'') =
      [''-L./lib'', ''-Wl,-rpath,./lib'', ''-Wl,-rpath,/usr/lib'', ''-Wl,-rpath,false'', ''-Lfalse'']"
    by (simp add: getSharedLibraryPathsAsArguments_def shared_argument_groups_def shared
        example_compiler_fields or_default_def toolchainLibraryPaths_def underscore_union_def
        underscore_uniq_def uniq_step_def Let_def)
  have without: "getSharedLibraryPathsAsArguments example_compiler [] None None (Some ''/tmp/dl'') =
      [''-L./lib'', ''-Wl,-rpath,./lib'', ''-Wl,-rpath,/usr/lib'']"
    by (simp add: getSharedLibraryPathsAsArguments_def shared_argument_groups_def none
        example_compiler_fields or_default_def toolchainLibraryPaths_def underscore_union_def
        underscore_uniq_def uniq_step_def Let_def)
  from unresolved include_args shared none arguments without show ?thesis
    by blast
qed

text \<open>
  Claim C8. For a library whose version metadata resolves, \<^verbatim>\<open>getSharedLibraryPaths\<close>
  contributes the library's own \<^verbatim>\<open>libpath\<close> entries, followed by the synthesized path
  \<^verbatim>\<open>join(dirPath, id, "lib")\<close> exactly when a build environment setup exists, that setup
  does not extract everything to one root, and a (non-empty) download directory is given;
  otherwise the own entries are all the library contributes.
\<close>

theorem getSharedLibraryPaths_resolved_contribution:
  "findLibVersion self selectedLib = Some foundVersion \<Longrightarrow>
   (\<forall>b d. buildenvsetup self = Some b \<and> \<not> extractAllToRoot b \<and> dirPath = Some d \<and> d \<noteq> [] \<longrightarrow>
      getSharedLibraryPaths self (before @ selectedLib # after) dirPath =
        getSharedLibraryPaths self before dirPath @
        map JString (libpath foundVersion @ [path_join [d, id' selectedLib, ''lib'']]) @
        getSharedLibraryPaths self after dirPath) \<and>
   (\<not> (truthy dirPath \<and> (\<exists>b. buildenvsetup self = Some b \<and> \<not> extractAllToRoot b)) \<longrightarrow>
      getSharedLibraryPaths self (before @ selectedLib # after) dirPath =
        getSharedLibraryPaths self before dirPath @
        map JString (libpath foundVersion) @
        getSharedLibraryPaths self after dirPath)"
  by (auto simp add: getSharedLibraryPaths_append getSharedLibraryPaths_Cons shared_paths_of_def
      pushed_lib_path_def truthy_def split: option.splits)

theorem getSharedLibraryPaths_resolved_contribution_witness:
  "getSharedLibraryPaths example_compiler [json_library] (Some ''/tmp/dl'') =
     [JString ''/opt/fmt/lib'', JString ''/opt/json/lib'', JString ''/tmp/dl/json/lib''] \<and>
   getSharedLibraryPaths example_compiler [json_library] None =
     [JString ''/opt/fmt/lib'', JString ''/opt/json/lib'']"
proof -
  have found: "findLibVersion example_compiler json_library =
      Some \<lparr>path = [''/opt/json/include''], libpath = [''/opt/fmt/lib'', ''/opt/json/lib''],
            packagedheaders = False\<rparr>"
    by (simp add: example_compiler_fields example_registry_values)
  have build_env: "buildenvsetup example_compiler = Some \<lparr>extractAllToRoot = False\<rparr>"
    by (simp add: example_compiler_fields)
  have no_libs: "getSharedLibraryPaths example_compiler [] d = []" for d
    by (simp add: getSharedLibraryPaths_def js_flat_def)
  have joined: "path_join [''/tmp/dl'', id' json_library, ''lib''] = ''/tmp/dl/json/lib''"
    by (simp add: json_library_def example_joined_paths)
  have "getSharedLibraryPaths example_compiler ([] @ json_library # []) (Some ''/tmp/dl'') =
      getSharedLibraryPaths example_compiler [] (Some ''/tmp/dl'') @
      map JString ([''/opt/fmt/lib'', ''/opt/json/lib''] @
        [path_join [''/tmp/dl'', id' json_library, ''lib'']]) @
      getSharedLibraryPaths example_compiler [] (Some ''/tmp/dl'')"
    using getSharedLibraryPaths_resolved_contribution
      [OF found, of "Some ''/tmp/dl''" "[]" "[]"] build_env
    by simp
  moreover have "getSharedLibraryPaths example_compiler ([] @ json_library # []) None =
      getSharedLibraryPaths example_compiler [] None @
      map JString [''/opt/fmt/lib'', ''/opt/json/lib''] @
      getSharedLibraryPaths example_compiler [] None"
    using getSharedLibraryPaths_resolved_contribution [OF found, of None "[]" "[]"]
    by (simp add: truthy_def)
  ultimately show ?thesis
    by (simp add: no_libs joined)
qed

section \<open>Include arguments\<close>

lemma set_getIncludeArguments:
  "set (getIncludeArguments self libraries dirPath) =
     (\<Union>selectedLib \<in> set libraries.
        set (include_arguments_of self (or_default (includeFlag (compiler self)) ''-I'') dirPath
          selectedLib))"
  by (simp add: getIncludeArguments_def Let_def)

lemma or_default_falsy: "\<not> truthy a \<Longrightarrow> or_default a d = d"
  by (simp add: truthy_def or_default_def split: option.splits)

lemma or_default_custom: "a = Some t \<Longrightarrow> t \<noteq> [] \<Longrightarrow> or_default a d = t"
  by (simp add: or_default_def)

lemma include_arguments_of_default_prefix:
  "a \<in> set (include_arguments_of self ''-I'' dirPath selectedLib) \<Longrightarrow> prefix ''-I'' a"
  by (auto simp add: include_arguments_of_def Let_def split: option.splits if_splits)

lemma include_arguments_of_custom:
  "a \<in> set (include_arguments_of self flag dirPath selectedLib) \<Longrightarrow>
   prefix flag a \<or> a = ''-I'' @ path_join [dirPath, id' selectedLib, ''mod'']"
  by (auto simp add: include_arguments_of_def Let_def split: option.splits if_splits)

lemma include_arguments_of_own_paths:
  "findLibVersion self selectedLib = Some foundVersion \<Longrightarrow> p \<in> set (path foundVersion) \<Longrightarrow>
   flag @ p \<in> set (include_arguments_of self flag dirPath selectedLib)"
  by (simp add: include_arguments_of_def)

lemma example_include_arguments:
  "getIncludeArguments example_compiler [fmt_library, json_library] ''/tmp/dl'' =
     [''-I/opt/fmt/include'', ''-I/tmp/dl/fmt/mod'', ''-I/tmp/dl/fmt/include'',
      ''-I/opt/json/include'']"
  by (simp add: getIncludeArguments_def include_arguments_of_def Let_def or_default_def
      example_compiler_fields example_registry_values)
     (simp add: fmt_library_def example_joined_paths)

text \<open>
  Claim C6. For a library whose resolved metadata has packaged headers, with download
  root \<open>dirPath\<close> and library id \<open>id'\<close>, \<^verbatim>\<open>getIncludeArguments\<close> emits the module-path
  argument \<^verbatim>\<open>-I\<close> on \<^verbatim>\<open>join(dirPath, id, "mod")\<close> and then the configured include flag on
  \<^verbatim>\<open>join(dirPath, id, "include")\<close>; the two entries stand immediately after the
  arguments for the library's own include paths and before every argument of the
  libraries that follow.
\<close>

theorem getIncludeArguments_packaged_headers:
  "findLibVersion self selectedLib = Some foundVersion \<Longrightarrow> packagedheaders foundVersion \<Longrightarrow>
   getIncludeArguments self (before @ selectedLib # after) dirPath =
     getIncludeArguments self before dirPath @
     map (\<lambda>p. or_default (includeFlag (compiler self)) ''-I'' @ p) (path foundVersion) @
     [''-I'' @ path_join [dirPath, id' selectedLib, ''mod''],
      or_default (includeFlag (compiler self)) ''-I'' @
        path_join [dirPath, id' selectedLib, ''include'']] @
     getIncludeArguments self after dirPath"
  by (simp add: getIncludeArguments_append getIncludeArguments_Cons include_arguments_of_def
      Let_def)

theorem getIncludeArguments_packaged_headers_witness:
  "getIncludeArguments example_compiler [fmt_library, json_library] ''/tmp/dl'' =
     [''-I/opt/fmt/include'', ''-I/tmp/dl/fmt/mod'', ''-I/tmp/dl/fmt/include''] @
     getIncludeArguments example_compiler [json_library] ''/tmp/dl''"
proof -
  have found: "findLibVersion example_compiler fmt_library =
      Some \<lparr>path = [''/opt/fmt/include''], libpath = [''/opt/fmt/lib''], packagedheaders = True\<rparr>"
    by (simp add: example_compiler_fields example_registry_values)
  have packaged: "packagedheaders
      \<lparr>path = [''/opt/fmt/include''], libpath = [''/opt/fmt/lib''], packagedheaders = True\<rparr>"
    by simp
  have no_libs: "getIncludeArguments example_compiler [] ''/tmp/dl'' = []"
    by (simp add: getIncludeArguments_def)
  have flag: "or_default (includeFlag (compiler example_compiler)) ''-I'' = ''-I''"
    by (simp add: example_compiler_fields or_default_def)
  have joined: "path_join [''/tmp/dl'', id' fmt_library, ''mod''] = ''/tmp/dl/fmt/mod''"
    "path_join [''/tmp/dl'', id' fmt_library, ''include''] = ''/tmp/dl/fmt/include''"
    by (simp_all add: fmt_library_def example_joined_paths)
  show ?thesis
    using getIncludeArguments_packaged_headers [OF found packaged, of "[]" "[json_library]" "''/tmp/dl''"]
    by (simp add: no_libs flag joined)
qed

lemma getIncludeArguments_own_paths:
  "selectedLib \<in> set libraries \<Longrightarrow> findLibVersion self selectedLib = Some foundVersion \<Longrightarrow>
   p \<in> set (path foundVersion) \<Longrightarrow>
   or_default (includeFlag (compiler self)) ''-I'' @ p \<in>
     set (getIncludeArguments self libraries dirPath)"
  unfolding set_getIncludeArguments
  using include_arguments_of_own_paths
    [of self selectedLib foundVersion p "or_default (includeFlag (compiler self)) ''-I''" dirPath]
  by blast

text \<open>
  Claim C7. When the configuration gives no include flag (it is absent or empty), the
  argument for every include path of every resolved library is \<^verbatim>\<open>-I\<close> followed by the
  path, and every argument that \<^verbatim>\<open>getIncludeArguments\<close> produces starts with \<^verbatim>\<open>-I\<close>.
  When a custom include flag is configured, the argument for every include path of every
  resolved library is that flag followed by the path; the only arguments that do not
  start with the custom flag are the module-path arguments of libraries with packaged
  headers.
\<close>

theorem getIncludeArguments_include_flag:
  "(\<not> truthy (includeFlag (compiler self)) \<longrightarrow>
      (\<forall>selectedLib \<in> set libraries. \<forall>foundVersion.
         findLibVersion self selectedLib = Some foundVersion \<longrightarrow>
         (\<forall>p \<in> set (path foundVersion).
            ''-I'' @ p \<in> set (getIncludeArguments self libraries dirPath))) \<and>
      (\<forall>a \<in> set (getIncludeArguments self libraries dirPath). prefix ''-I'' a)) \<and>
   (\<forall>custom. includeFlag (compiler self) = Some custom \<and> custom \<noteq> [] \<longrightarrow>
      (\<forall>selectedLib \<in> set libraries. \<forall>foundVersion.
         findLibVersion self selectedLib = Some foundVersion \<longrightarrow>
         (\<forall>p \<in> set (path foundVersion).
            custom @ p \<in> set (getIncludeArguments self libraries dirPath))) \<and>
      (\<forall>a \<in> set (getIncludeArguments self libraries dirPath).
         prefix custom a \<or>
         (\<exists>selectedLib \<in> set libraries. a = ''-I'' @ path_join [dirPath, id' selectedLib, ''mod''])))"
proof (intro conjI impI allI)
  assume "\<not> truthy (includeFlag (compiler self))"
  then have flag: "or_default (includeFlag (compiler self)) ''-I'' = ''-I''"
    by (rule or_default_falsy)
  show "\<forall>selectedLib \<in> set libraries. \<forall>foundVersion.
         findLibVersion self selectedLib = Some foundVersion \<longrightarrow>
         (\<forall>p \<in> set (path foundVersion).
            ''-I'' @ p \<in> set (getIncludeArguments self libraries dirPath))"
  proof (intro ballI allI impI)
    fix selectedLib foundVersion p
    assume "selectedLib \<in> set libraries"
      and "findLibVersion self selectedLib = Some foundVersion"
      and "p \<in> set (path foundVersion)"
    then show "''-I'' @ p \<in> set (getIncludeArguments self libraries dirPath)"
      using getIncludeArguments_own_paths [of selectedLib libraries self foundVersion p dirPath]
      unfolding flag by blast
  qed
  show "\<forall>a \<in> set (getIncludeArguments self libraries dirPath). prefix ''-I'' a"
  proof
    fix a
    assume "a \<in> set (getIncludeArguments self libraries dirPath)"
    then obtain selectedLib where
      "a \<in> set (include_arguments_of self ''-I'' dirPath selectedLib)"
      unfolding set_getIncludeArguments flag by blast
    then show "prefix ''-I'' a"
      by (rule include_arguments_of_default_prefix)
  qed
next
  fix custom
  assume "includeFlag (compiler self) = Some custom \<and> custom \<noteq> []"
  then have flag: "or_default (includeFlag (compiler self)) ''-I'' = custom"
    by (simp add: or_default_custom)
  show "\<forall>selectedLib \<in> set libraries. \<forall>foundVersion.
         findLibVersion self selectedLib = Some foundVersion \<longrightarrow>
         (\<forall>p \<in> set (path foundVersion).
            custom @ p \<in> set (getIncludeArguments self libraries dirPath))"
  proof (intro ballI allI impI)
    fix selectedLib foundVersion p
    assume "selectedLib \<in> set libraries"
      and "findLibVersion self selectedLib = Some foundVersion"
      and "p \<in> set (path foundVersion)"
    then show "custom @ p \<in> set (getIncludeArguments self libraries dirPath)"
      using getIncludeArguments_own_paths [of selectedLib libraries self foundVersion p dirPath]
      unfolding flag by blast
  qed
  show "\<forall>a \<in> set (getIncludeArguments self libraries dirPath).
         prefix custom a \<or>
         (\<exists>selectedLib \<in> set libraries. a = ''-I'' @ path_join [dirPath, id' selectedLib, ''mod''])"
  proof
    fix a
    assume "a \<in> set (getIncludeArguments self libraries dirPath)"
    then obtain selectedLib where lib: "selectedLib \<in> set libraries"
      and "a \<in> set (include_arguments_of self custom dirPath selectedLib)"
      unfolding set_getIncludeArguments flag by blast
    then have "prefix custom a \<or> a = ''-I'' @ path_join [dirPath, id' selectedLib, ''mod'']"
      using include_arguments_of_custom by blast
    with lib show "prefix custom a \<or>
        (\<exists>selectedLib \<in> set libraries. a = ''-I'' @ path_join [dirPath, id' selectedLib, ''mod''])"
      by blast
  qed
qed

theorem getIncludeArguments_include_flag_witness:
  "''-I/opt/json/include'' \<in>
     set (getIncludeArguments example_compiler [fmt_library, json_library] ''/tmp/dl'') \<and>
   list_all (prefix ''-I'') (getIncludeArguments example_compiler [fmt_library, json_library] ''/tmp/dl'') \<and>
   ''-isystem/opt/json/include'' \<in>
     set (getIncludeArguments isystem_compiler [fmt_library, json_library] ''/tmp/dl'') \<and>
   getIncludeArguments isystem_compiler [fmt_library, json_library] ''/tmp/dl'' =
     [''-isystem/opt/fmt/include'', ''-I/tmp/dl/fmt/mod'', ''-isystem/tmp/dl/fmt/include'',
      ''-isystem/opt/json/include'']"
proof -
  have absent: "\<not> truthy (includeFlag (compiler example_compiler))"
    by (simp add: example_compiler_fields truthy_def)
  have custom: "includeFlag (compiler isystem_compiler) = Some ''-isystem'' \<and> ''-isystem'' \<noteq> []"
    by (simp add: isystem_compiler_def)
  have member: "json_library \<in> set [fmt_library, json_library]"
    by simp
  have found_default: "findLibVersion example_compiler json_library =
      Some \<lparr>path = [''/opt/json/include''], libpath = [''/opt/fmt/lib'', ''/opt/json/lib''],
            packagedheaders = False\<rparr>"
    by (simp add: example_compiler_fields example_registry_values)
  have found: "findLibVersion isystem_compiler json_library =
      Some \<lparr>path = [''/opt/json/include''], libpath = [''/opt/fmt/lib'', ''/opt/json/lib''],
            packagedheaders = False\<rparr>"
    by (simp add: isystem_compiler_def example_compiler_fields example_registry_values)
  note default_case = getIncludeArguments_include_flag
      [of example_compiler "[fmt_library, json_library]" "''/tmp/dl''"]
  have "''-I'' @ ''/opt/json/include'' \<in>
      set (getIncludeArguments example_compiler [fmt_library, json_library] ''/tmp/dl'')"
    using default_case absent member found_default
    by fastforce
  moreover have "list_all (prefix ''-I'')
      (getIncludeArguments example_compiler [fmt_library, json_library] ''/tmp/dl'')"
    using default_case absent
    unfolding list_all_iff by blast
  moreover have "''-isystem'' @ ''/opt/json/include'' \<in>
      set (getIncludeArguments isystem_compiler [fmt_library, json_library] ''/tmp/dl'')"
    using getIncludeArguments_include_flag
      [of isystem_compiler "[fmt_library, json_library]" "''/tmp/dl''"] custom member found
    by fastforce
  moreover have "getIncludeArguments isystem_compiler [fmt_library, json_library] ''/tmp/dl'' =
     [''-isystem/opt/fmt/include'', ''-I/tmp/dl/fmt/mod'', ''-isystem/tmp/dl/fmt/include'',
      ''-isystem/opt/json/include'']"
    by (simp add: getIncludeArguments_def include_arguments_of_def Let_def or_default_def
        isystem_compiler_def example_compiler_fields example_registry_values)
       (simp add: fmt_library_def example_joined_paths)
  ultimately show ?thesis by simp
qed

section \<open>The order-preserving union\<close>

lemma underscore_uniq_snoc:
  "underscore_uniq (xs @ [x]) =
     (if x \<in> set (underscore_uniq xs) then underscore_uniq xs else underscore_uniq xs @ [x])"
  by (simp add: underscore_uniq_def uniq_step_def)

lemma set_underscore_uniq: "set (underscore_uniq xs) = set xs"
proof (induction xs rule: rev_induct)
  case Nil
  show ?case by (simp add: underscore_uniq_def)
next
  case (snoc x xs)
  then show ?case by (auto simp add: underscore_uniq_snoc)
qed

lemma distinct_underscore_uniq: "distinct (underscore_uniq xs)"
proof (induction xs rule: rev_induct)
  case Nil
  show ?case by (simp add: underscore_uniq_def)
next
  case (snoc x xs)
  then show ?case by (simp add: underscore_uniq_snoc)
qed

lemma first_occurrences_snoc:
  "first_occurrences (xs @ [x]) = first_occurrences xs @ (if x \<in> set xs then [] else [x])"
proof -
  define fresh where "fresh = (\<lambda>i. (xs @ [x]) ! i \<notin> set (take i (xs @ [x])))"
  have positions: "[0..<length (xs @ [x])] = [0..<length xs] @ [length xs]"
    by simp
  have kept: "filter fresh [0..<length xs] =
      filter (\<lambda>i. xs ! i \<notin> set (take i xs)) [0..<length xs]"
    unfolding fresh_def by (rule filter_cong) (auto simp add: nth_append)
  have last_one: "fresh (length xs) \<longleftrightarrow> x \<notin> set xs"
    unfolding fresh_def by simp
  have entries: "map (\<lambda>i. (xs @ [x]) ! i) (filter P [0..<length xs]) =
      map (\<lambda>i. xs ! i) (filter P [0..<length xs])" for P
    by (rule map_cong) (auto simp add: nth_append)
  have "first_occurrences (xs @ [x]) =
      map (\<lambda>i. (xs @ [x]) ! i) (filter fresh ([0..<length xs] @ [length xs]))"
    unfolding first_occurrences_def positions fresh_def ..
  also have "\<dots> = map (\<lambda>i. (xs @ [x]) ! i) (filter fresh [0..<length xs]) @
      (if x \<in> set xs then [] else [x])"
    by (simp add: last_one)
  also have "\<dots> = first_occurrences xs @ (if x \<in> set xs then [] else [x])"
    unfolding entries kept first_occurrences_def ..
  finally show ?thesis .
qed

lemma underscore_uniq_first_occurrences: "underscore_uniq xs = first_occurrences xs"
proof (induction xs rule: rev_induct)
  case Nil
  show ?case by (simp add: underscore_uniq_def first_occurrences_def)
next
  case (snoc x xs)
  have seen: "x \<in> set (first_occurrences xs) \<longleftrightarrow> x \<in> set xs"
    using set_underscore_uniq [of xs] snoc.IH by simp
  show ?case
    unfolding underscore_uniq_snoc first_occurrences_snoc snoc.IH seen by simp
qed

lemma fold_uniq_step_extends: "\<exists>zs. fold uniq_step xs acc = acc @ zs"
proof (induction xs arbitrary: acc)
  case Nil
  show ?case by simp
next
  case (Cons x xs)
  have "\<exists>ys. uniq_step x acc = acc @ ys"
    by (simp add: uniq_step_def)
  then obtain ys where pushed: "uniq_step x acc = acc @ ys" ..
  obtain zs where "fold uniq_step xs (uniq_step x acc) = uniq_step x acc @ zs"
    using Cons.IH by blast
  then have "fold uniq_step (x # xs) acc = acc @ (ys @ zs)"
    by (simp add: pushed)
  then show ?case by blast
qed

lemma underscore_uniq_starts_with_first:
  "\<exists>zs. underscore_uniq (a # xs) = a # zs"
proof -
  have "uniq_step a [] = [a]"
    by (simp add: uniq_step_def)
  then have "underscore_uniq (a # xs) = fold uniq_step xs [a]"
    by (simp add: underscore_uniq_def)
  moreover obtain zs where "fold uniq_step xs [a] = [a] @ zs"
    using fold_uniq_step_extends by blast
  ultimately show ?thesis by simp
qed

lemma underscore_uniq_starts_with_two:
  "a \<noteq> b \<Longrightarrow> \<exists>zs. underscore_uniq (a # b # xs) = a # b # zs"
proof -
  assume "a \<noteq> b"
  then have "uniq_step b (uniq_step a []) = [a, b]"
    by (simp add: uniq_step_def)
  then have "underscore_uniq (a # b # xs) = fold uniq_step xs [a, b]"
    by (simp add: underscore_uniq_def)
  moreover obtain zs where "fold uniq_step xs [a, b] = [a, b] @ zs"
    using fold_uniq_step_extends by blast
  ultimately show ?thesis by simp
qed

section \<open>Shared library paths as arguments\<close>

lemma example_shared_arguments:
  "getSharedLibraryPathsAsArguments example_compiler [fmt_library, json_library] None
     (Some ''/opt/gcc'') (Some ''/tmp/dl'') =
     [''-L./lib'', ''-Wl,-rpath,./lib'', ''-Wl,-rpath,/usr/lib'', ''-Wl,-rpath,/opt/gcc/lib64'',
      ''-Wl,-rpath,/opt/gcc/lib32'', ''-Wl,-rpath,/opt/fmt/lib'', ''-Wl,-rpath,/tmp/dl/fmt/lib'',
      ''-Wl,-rpath,/opt/json/lib'', ''-Wl,-rpath,/tmp/dl/json/lib'', ''-L/opt/fmt/lib'',
      ''-L/tmp/dl/fmt/lib'', ''-L/opt/json/lib'', ''-L/tmp/dl/json/lib'']"
proof -
  have shared: "getSharedLibraryPaths example_compiler [fmt_library, json_library] (Some ''/tmp/dl'') =
      [JString ''/opt/fmt/lib'', JString ''/tmp/dl/fmt/lib'', JString ''/opt/fmt/lib'',
       JString ''/opt/json/lib'', JString ''/tmp/dl/json/lib'']"
    by (simp add: getSharedLibraryPaths_def js_flat_def shared_paths_of_def pushed_lib_path_def
        example_compiler_fields example_registry_values)
       (simp add: fmt_library_def json_library_def example_joined_paths)
  show ?thesis
    by (simp add: getSharedLibraryPathsAsArguments_def shared_argument_groups_def shared
        example_compiler_fields or_default_def toolchainLibraryPaths_def example_joined_paths
        underscore_union_def underscore_uniq_def uniq_step_def Let_def)
qed

text \<open>
  The vector of \<^verbatim>\<open>getSharedLibraryPathsAsArguments\<close> is the union of the six arrays of
  the call: of their concatenation an entry is kept exactly when it has not occurred
  before, so every string appears once, at the place of its first occurrence, and the
  first occurrences keep their order. The last two arrays range over every entry that
  \<^verbatim>\<open>getSharedLibraryPaths\<close> returns.
\<close>

lemma getSharedLibraryPathsAsArguments_keeps_first:
  "(let pathFlag = or_default (rpathFlag (compiler self)) (defaultRpathFlag self);
        libPathFlag = or_default (libpathFlag (compiler self)) ''-L'';
        downloadPath = or_default libDownloadPath ''./lib'';
        shared = getSharedLibraryPaths self libraries dirPath;
        candidates =
          [libPathFlag @ downloadPath] @
          [pathFlag @ downloadPath] @
          map (\<lambda>p. pathFlag @ p) (libPath (compiler self)) @
          map (\<lambda>p. pathFlag @ p) (toolchainLibraryPaths toolchainPath) @
          map (\<lambda>p. pathFlag @ js_to_string p) shared @
          map (\<lambda>p. libPathFlag @ js_to_string p) shared;
        result = getSharedLibraryPathsAsArguments self libraries libDownloadPath toolchainPath
          dirPath
    in result = first_occurrences candidates \<and> distinct result \<and> set result = set candidates)"
proof -
  have "concat (shared_argument_groups self libraries libDownloadPath toolchainPath dirPath) =
      [or_default (libpathFlag (compiler self)) ''-L'' @ or_default libDownloadPath ''./lib''] @
      [or_default (rpathFlag (compiler self)) (defaultRpathFlag self) @
         or_default libDownloadPath ''./lib''] @
      map (\<lambda>p. or_default (rpathFlag (compiler self)) (defaultRpathFlag self) @ p)
        (libPath (compiler self)) @
      map (\<lambda>p. or_default (rpathFlag (compiler self)) (defaultRpathFlag self) @ p)
        (toolchainLibraryPaths toolchainPath) @
      map (\<lambda>p. or_default (rpathFlag (compiler self)) (defaultRpathFlag self) @ js_to_string p)
        (getSharedLibraryPaths self libraries dirPath) @
      map (\<lambda>p. or_default (libpathFlag (compiler self)) ''-L'' @ js_to_string p)
        (getSharedLibraryPaths self libraries dirPath)"
    by (simp add: shared_argument_groups_def Let_def)
  then show ?thesis
    unfolding Let_def getSharedLibraryPathsAsArguments_def underscore_union_def
    using underscore_uniq_first_occurrences distinct_underscore_uniq set_underscore_uniq
    by metis
qed

text \<open>
  When every requested library resolves, the entries of \<^verbatim>\<open>getSharedLibraryPaths\<close> are
  the resolved shared-library paths, and the vector is the union of the six groups of the
  specification.
\<close>

lemma getSharedLibraryPaths_all_resolved:
  "\<forall>selectedLib \<in> set libraries. findLibVersion self selectedLib \<noteq> None \<Longrightarrow>
   getSharedLibraryPaths self libraries dirPath =
     map JString (resolved_shared_paths self libraries dirPath)"
proof (induction libraries)
  case Nil
  show ?case
    by (simp add: getSharedLibraryPaths_def js_flat_def resolved_shared_paths_def)
next
  case (Cons selectedLib libraries)
  then obtain foundVersion where "findLibVersion self selectedLib = Some foundVersion"
    by auto
  moreover have "getSharedLibraryPaths self libraries dirPath =
      map JString (resolved_shared_paths self libraries dirPath)"
    using Cons by simp
  ultimately show ?case
    by (simp add: getSharedLibraryPaths_Cons shared_paths_of_def resolved_shared_paths_def)
qed

lemma getSharedLibraryPathsAsArguments_all_resolved:
  "\<forall>selectedLib \<in> set libraries. findLibVersion self selectedLib \<noteq> None \<Longrightarrow>
   getSharedLibraryPathsAsArguments self libraries libDownloadPath toolchainPath dirPath =
     six_groups_union self libraries libDownloadPath toolchainPath dirPath"
proof -
  assume "\<forall>selectedLib \<in> set libraries. findLibVersion self selectedLib \<noteq> None"
  then have entries: "getSharedLibraryPaths self libraries dirPath =
      map JString (resolved_shared_paths self libraries dirPath)"
    by (rule getSharedLibraryPaths_all_resolved)
  have "getSharedLibraryPathsAsArguments self libraries libDownloadPath toolchainPath dirPath =
      first_occurrences
        (concat (shared_argument_groups self libraries libDownloadPath toolchainPath dirPath))"
    by (simp add: getSharedLibraryPathsAsArguments_def underscore_union_def
        underscore_uniq_first_occurrences)
  also have "\<dots> = six_groups_union self libraries libDownloadPath toolchainPath dirPath"
    by (simp add: shared_argument_groups_def six_groups_union_def Let_def entries comp_def)
  finally show ?thesis .
qed

lemma example_unresolved_arguments:
  "getSharedLibraryPathsAsArguments example_compiler [netcdf_library] None None (Some ''/tmp/dl'') =
     [''-L./lib'', ''-Wl,-rpath,./lib'', ''-Wl,-rpath,/usr/lib'', ''-Wl,-rpath,false'', ''-Lfalse'']"
proof -
  have "findLibVersion example_compiler netcdf_library = None"
    by (simp add: example_compiler_fields example_registry_values)
  then have "getSharedLibraryPaths example_compiler [netcdf_library] (Some ''/tmp/dl'') = [JFalse]"
    by (simp add: getSharedLibraryPaths_def js_flat_def shared_paths_of_def)
  then show ?thesis
    by (simp add: getSharedLibraryPathsAsArguments_def shared_argument_groups_def
        example_compiler_fields or_default_def toolchainLibraryPaths_def underscore_union_def
        underscore_uniq_def uniq_step_def Let_def)
qed

lemma example_unresolved_six_groups:
  "six_groups_union example_compiler [netcdf_library] None None (Some ''/tmp/dl'') =
     [''-L./lib'', ''-Wl,-rpath,./lib'', ''-Wl,-rpath,/usr/lib'']"
proof -
  have "findLibVersion example_compiler netcdf_library = None"
    by (simp add: example_compiler_fields example_registry_values)
  then have "resolved_shared_paths example_compiler [netcdf_library] (Some ''/tmp/dl'') = []"
    by (simp add: resolved_shared_paths_def)
  then show ?thesis
    by (simp add: six_groups_union_def underscore_uniq_first_occurrences [symmetric]
        example_compiler_fields or_default_def toolchainLibraryPaths_def underscore_uniq_def
        uniq_step_def Let_def)
qed

text \<open>
  Claim C3 says that the vector of \<^verbatim>\<open>getSharedLibraryPathsAsArguments\<close> is the union of
  six groups, the last two being the runtime-path flag and the library-search-path flag
  on each resolved shared-library path, every string once at the place of its first
  occurrence. The code does so when every library resolves
  (\<open>getSharedLibraryPathsAsArguments_all_resolved\<close>). For a library without version metadata
  it does not: the \<^verbatim>\<open>false\<close> that \<^verbatim>\<open>getSharedLibraryPaths\<close> leaves in its result is
  formatted with both flags. The registry of the concrete installation does not know
  \<^verbatim>\<open>netcdf\<close>; requested alone, the union of the six groups has three strings, and the vector
  has two more, \<^verbatim>\<open>-Wl,-rpath,false\<close> and \<^verbatim>\<open>-Lfalse\<close>, which belong to none of the groups.
\<close>

theorem getSharedLibraryPathsAsArguments_unresolved_outside_groups:
  "findLibVersion example_compiler netcdf_library = None \<and>
   resolved_shared_paths example_compiler [netcdf_library] (Some ''/tmp/dl'') = [] \<and>
   six_groups_union example_compiler [netcdf_library] None None (Some ''/tmp/dl'') =
     [''-L./lib'', ''-Wl,-rpath,./lib'', ''-Wl,-rpath,/usr/lib''] \<and>
   getSharedLibraryPathsAsArguments example_compiler [netcdf_library] None None (Some ''/tmp/dl'') =
     [''-L./lib'', ''-Wl,-rpath,./lib'', ''-Wl,-rpath,/usr/lib'', ''-Wl,-rpath,false'', ''-Lfalse'']"
proof -
  have unresolved: "findLibVersion example_compiler netcdf_library = None"
    by (simp add: example_compiler_fields example_registry_values)
  then have "resolved_shared_paths example_compiler [netcdf_library] (Some ''/tmp/dl'') = []"
    by (simp add: resolved_shared_paths_def)
  with unresolved example_unresolved_six_groups example_unresolved_arguments
  show ?thesis by blast
qed

text \<open>
  Claim C10, as stated, fails when the runtime-path flag and the library-search-path flag
  are the same string: the two entries for \<^verbatim>\<open>./lib\<close> are then one string, which the
  union keeps once, and the second entry of the vector is whatever comes next. With
  \<^verbatim>\<open>rpathFlag\<close> configured as \<^verbatim>\<open>-L\<close> the second entry is the toolchain-global library
  path.
\<close>

theorem getSharedLibraryPathsAsArguments_same_flags_counterexample:
  "getSharedLibraryPathsAsArguments same_flag_compiler [] None None None =
     [''-L./lib'', ''-L/usr/lib''] \<and>
   or_default (libpathFlag (compiler same_flag_compiler)) ''-L'' @ ''./lib'' = ''-L./lib'' \<and>
   or_default (rpathFlag (compiler same_flag_compiler)) (defaultRpathFlag same_flag_compiler) @
     ''./lib'' = ''-L./lib'' \<and>
   take 2 (getSharedLibraryPathsAsArguments same_flag_compiler [] None None None) \<noteq>
     [''-L./lib'', ''-L./lib'']"
  by (simp add: getSharedLibraryPathsAsArguments_def shared_argument_groups_def
      getSharedLibraryPaths_def js_flat_def same_flag_compiler_def example_compiler_fields
      or_default_def toolchainLibraryPaths_def underscore_union_def underscore_uniq_def
      uniq_step_def Let_def)

text \<open>
  Claim C10, amended. When \<^verbatim>\<open>getSharedLibraryPathsAsArguments\<close> is called with an empty
  or absent download root, the root defaults to \<^verbatim>\<open>./lib\<close>: the first entry of the vector
  is the library-search-path flag on \<^verbatim>\<open>./lib\<close>, and, provided the runtime-path flag and
  the library-search-path flag are different strings, the second entry is the
  runtime-path flag on \<^verbatim>\<open>./lib\<close>.
\<close>

theorem getSharedLibraryPathsAsArguments_default_download_root:
  "\<not> truthy libDownloadPath \<Longrightarrow>
   (let pathFlag = or_default (rpathFlag (compiler self)) (defaultRpathFlag self);
        libPathFlag = or_default (libpathFlag (compiler self)) ''-L'';
        result = getSharedLibraryPathsAsArguments self libraries libDownloadPath toolchainPath
          dirPath
    in take 1 result = [libPathFlag @ ''./lib''] \<and>
       (pathFlag \<noteq> libPathFlag \<longrightarrow> take 2 result = [libPathFlag @ ''./lib'', pathFlag @ ''./lib'']))"
proof -
  assume "\<not> truthy libDownloadPath"
  then have root: "or_default libDownloadPath ''./lib'' = ''./lib''"
    by (rule or_default_falsy)
  let ?R = "or_default (rpathFlag (compiler self)) (defaultRpathFlag self)"
  let ?L = "or_default (libpathFlag (compiler self)) ''-L''"
  obtain others where groups:
    "concat (shared_argument_groups self libraries libDownloadPath toolchainPath dirPath) =
       (?L @ ''./lib'') # (?R @ ''./lib'') # others"
    by (simp add: shared_argument_groups_def Let_def root)
  have first: "take 1 (getSharedLibraryPathsAsArguments self libraries libDownloadPath
      toolchainPath dirPath) = [?L @ ''./lib'']"
    using underscore_uniq_starts_with_first [of "?L @ ''./lib''" "(?R @ ''./lib'') # others"]
    by (auto simp add: getSharedLibraryPathsAsArguments_def underscore_union_def groups)
  have second: "take 2 (getSharedLibraryPathsAsArguments self libraries libDownloadPath
      toolchainPath dirPath) = [?L @ ''./lib'', ?R @ ''./lib'']" if "?R \<noteq> ?L"
  proof -
    from that have "?L @ ''./lib'' \<noteq> ?R @ ''./lib''"
      by simp
    then show ?thesis
      using underscore_uniq_starts_with_two [of "?L @ ''./lib''" "?R @ ''./lib''" others]
      by (auto simp add: getSharedLibraryPathsAsArguments_def underscore_union_def groups)
  qed
  from first second show ?thesis
    unfolding Let_def by blast
qed

theorem getSharedLibraryPathsAsArguments_default_download_root_witness:
  "take 2 (getSharedLibraryPathsAsArguments example_compiler [fmt_library] (Some []) None None) =
     [''-L./lib'', ''-Wl,-rpath,./lib''] \<and>
   take 2 (getSharedLibraryPathsAsArguments example_compiler [fmt_library] None None None) =
     [''-L./lib'', ''-Wl,-rpath,./lib'']"
proof -
  have empty_root: "\<not> truthy (Some [])" and absent_root: "\<not> truthy None"
    by (simp_all add: truthy_def)
  have flags: "or_default (rpathFlag (compiler example_compiler)) (defaultRpathFlag example_compiler) =
      ''-Wl,-rpath,''"
    "or_default (libpathFlag (compiler example_compiler)) ''-L'' = ''-L''"
    by (simp_all add: example_compiler_fields or_default_def)
  show ?thesis
    using getSharedLibraryPathsAsArguments_default_download_root
        [OF empty_root, of example_compiler "[fmt_library]" None None]
      getSharedLibraryPathsAsArguments_default_download_root
        [OF absent_root, of example_compiler "[fmt_library]" None None]
    unfolding Let_def flags by simp
qed

section \<open>Running the compiler\<close>

lemma prepared_exec_options_cwd:
  "customCwd (prepared_exec_options self inputFile execOptions) = Some (path_dirname inputFile)"
  by (simp add: prepared_exec_options_def)

lemma prepared_exec_options_other_exec:
  "prepared_exec_options (self\<lparr>exec := run\<rparr>) inputFile execOptions =
     prepared_exec_options self inputFile execOptions"
  by (cases execOptions) (simp_all add: prepared_exec_options_def)

lemma runCompiler_launched:
  "exec self compilerExe options (prepared_exec_options self inputFile execOptions) = Inr result \<Longrightarrow>
   runCompiler self compilerExe options inputFile execOptions =
     Inr \<lparr>code = code result,
          stdout = parseOutput self (stdout result) (''./'' @ path_basename inputFile),
          stderr = parseOutput self (stderr result) (''./'' @ path_basename inputFile),
          inputFilename = inputFile\<rparr>"
  by (simp add: runCompiler_def Let_def)

lemma example_input_paths:
  "path_dirname ''/tmp/work/prog.f90'' = ''/tmp/work''"
  "path_basename ''/tmp/work/prog.f90'' = ''prog.f90''"
  "path_basename ''/a/prog.f90'' = ''prog.f90''"
  "path_basename ''/b/prog.f90'' = ''prog.f90''"
  by code_simp+

lemma example_rewritings:
  "replace_all ''/a/prog.f90'' ''./prog.f90'' ''/a/prog.f90:1: included from /b/prog.f90'' =
     ''./prog.f90:1: included from /b/prog.f90''"
  "replace_all ''/b/prog.f90'' ''./prog.f90'' ''/a/prog.f90:1: included from /b/prog.f90'' =
     ''/a/prog.f90:1: included from ./prog.f90''"
  "replace_all ''./prog.f90'' ''<source>'' ''/a/prog.f90:1: included from /b/prog.f90'' =
     ''/a/prog.f90:1: included from /b/prog.f90''"
  "replace_all ''./prog.f90'' ''<source>'' ''./prog.f90:2:3: Error in /tmp/work/prog.f90'' =
     ''<source>:2:3: Error in /tmp/work/prog.f90''"
  by code_simp+

lemma example_exec_gfortran:
  "exec example_compiler ''gfortran'' options execOptions =
     Inr \<lparr>code = 1,
          stdout = ''/a/prog.f90:1: included from /b/prog.f90'',
          stderr = ''./prog.f90:2:3: Error in /tmp/work/prog.f90''\<rparr>"
  by (simp add: example_compiler_fields example_exec_def)

text \<open>
  Claim C5, as stated, fails. \<^verbatim>\<open>runCompiler\<close> hands the post-processing only the raw
  stream and the relative name \<^verbatim>\<open>./\<close> + basename; the input path itself never reaches it.
  Two runs on \<^verbatim>\<open>/a/prog.f90\<close> and on \<^verbatim>\<open>/b/prog.f90\<close> whose child prints the same text
  therefore return the same \<^verbatim>\<open>stdout\<close>, whereas rewriting the occurrences of the input
  path would give two different texts. No post-processing function put in the place of
  \<^verbatim>\<open>utils.parseOutput\<close> makes both runs rewrite their input path.
\<close>

theorem runCompiler_rewrites_input_path_counterexample:
  "\<not> (\<exists>parse.
       map_sum id stdout
         (runCompiler (example_compiler\<lparr>parseOutput := parse\<rparr>) ''gfortran'' []
            ''/a/prog.f90'' None) =
         Inr (replace_all ''/a/prog.f90'' (''./'' @ path_basename ''/a/prog.f90'')
                ''/a/prog.f90:1: included from /b/prog.f90'') \<and>
       map_sum id stdout
         (runCompiler (example_compiler\<lparr>parseOutput := parse\<rparr>) ''gfortran'' []
            ''/b/prog.f90'' None) =
         Inr (replace_all ''/b/prog.f90'' (''./'' @ path_basename ''/b/prog.f90'')
                ''/a/prog.f90:1: included from /b/prog.f90''))"
proof
  assume "\<exists>parse.
       map_sum id stdout
         (runCompiler (example_compiler\<lparr>parseOutput := parse\<rparr>) ''gfortran'' []
            ''/a/prog.f90'' None) =
         Inr (replace_all ''/a/prog.f90'' (''./'' @ path_basename ''/a/prog.f90'')
                ''/a/prog.f90:1: included from /b/prog.f90'') \<and>
       map_sum id stdout
         (runCompiler (example_compiler\<lparr>parseOutput := parse\<rparr>) ''gfortran'' []
            ''/b/prog.f90'' None) =
         Inr (replace_all ''/b/prog.f90'' (''./'' @ path_basename ''/b/prog.f90'')
                ''/a/prog.f90:1: included from /b/prog.f90'')"
  then obtain parse where
    first_run: "map_sum id stdout
         (runCompiler (example_compiler\<lparr>parseOutput := parse\<rparr>) ''gfortran'' []
            ''/a/prog.f90'' None) =
         Inr (replace_all ''/a/prog.f90'' (''./'' @ path_basename ''/a/prog.f90'')
                ''/a/prog.f90:1: included from /b/prog.f90'')"
    and second_run: "map_sum id stdout
         (runCompiler (example_compiler\<lparr>parseOutput := parse\<rparr>) ''gfortran'' []
            ''/b/prog.f90'' None) =
         Inr (replace_all ''/b/prog.f90'' (''./'' @ path_basename ''/b/prog.f90'')
                ''/a/prog.f90:1: included from /b/prog.f90'')"
    by blast
  have run: "map_sum id stdout
      (runCompiler (example_compiler\<lparr>parseOutput := parse\<rparr>) ''gfortran'' [] inputFile None) =
      Inr (parse ''/a/prog.f90:1: included from /b/prog.f90''
             (''./'' @ path_basename inputFile))" for inputFile
    by (simp add: runCompiler_def Let_def example_compiler_fields example_exec_def)
  from first_run have "parse ''/a/prog.f90:1: included from /b/prog.f90'' ''./prog.f90'' =
      ''./prog.f90:1: included from /b/prog.f90''"
    unfolding run example_input_paths by (simp add: example_rewritings)
  moreover from second_run
  have "parse ''/a/prog.f90:1: included from /b/prog.f90'' ''./prog.f90'' =
      ''/a/prog.f90:1: included from ./prog.f90''"
    unfolding run example_input_paths by (simp add: example_rewritings)
  ultimately show False by simp
qed

text \<open>
  Claim C5, amended. For every invocation of \<^verbatim>\<open>runCompiler\<close> with input file path \<open>P\<close>
  whose child process is launched, the working directory of the child is set to the
  directory containing \<open>P\<close>, and the \<^verbatim>\<open>stdout\<close> and \<^verbatim>\<open>stderr\<close> of the returned result are
  \<^verbatim>\<open>utils.parseOutput\<close> applied to the raw stream of the child and to the relative name
  \<^verbatim>\<open>./\<close> + basename of \<open>P\<close>; the result carries the raw exit status and the original
  input file name unchanged.
\<close>

theorem runCompiler_outcome:
  "exec self compilerExe options (prepared_exec_options self inputFile execOptions) = Inr result \<Longrightarrow>
   customCwd (prepared_exec_options self inputFile execOptions) = Some (path_dirname inputFile) \<and>
   runCompiler self compilerExe options inputFile execOptions =
     Inr \<lparr>code = code result,
          stdout = parseOutput self (stdout result) (''./'' @ path_basename inputFile),
          stderr = parseOutput self (stderr result) (''./'' @ path_basename inputFile),
          inputFilename = inputFile\<rparr>"
  by (simp add: prepared_exec_options_cwd runCompiler_launched)

theorem runCompiler_outcome_witness:
  "customCwd (prepared_exec_options example_compiler ''/tmp/work/prog.f90'' None) =
     Some ''/tmp/work'' \<and>
   runCompiler example_compiler ''gfortran'' [] ''/tmp/work/prog.f90'' None =
     Inr \<lparr>code = 1,
          stdout = ''/a/prog.f90:1: included from /b/prog.f90'',
          stderr = ''<source>:2:3: Error in /tmp/work/prog.f90'',
          inputFilename = ''/tmp/work/prog.f90''\<rparr>"
  using runCompiler_outcome
    [where self = example_compiler and compilerExe = "''gfortran''" and options = "[]"
       and inputFile = "''/tmp/work/prog.f90''" and execOptions = None,
     OF example_exec_gfortran]
  by (simp add: example_input_paths example_compiler_fields example_rewritings)

text \<open>
  Claim C9. A non-zero exit status of the child process is not a failure of
  \<^verbatim>\<open>runCompiler\<close>: whenever the child was launched, a result is returned and its exit code
  is the child's, whatever it is. The streams are post-processed in the same way for
  every exit status: the result equals, the exit code apart, the result of the same
  run with exit status 0.
\<close>

theorem runCompiler_exit_status_transparent:
  "exec self compilerExe options (prepared_exec_options self inputFile execOptions) = Inr result \<Longrightarrow>
   (\<exists>outcome.
      runCompiler self compilerExe options inputFile execOptions = Inr outcome \<and>
      code outcome = code result \<and>
      runCompiler (self\<lparr>exec := \<lambda>exe args opts. Inr (result\<lparr>code := 0\<rparr>)\<rparr>)
        compilerExe options inputFile execOptions = Inr (outcome\<lparr>code := 0\<rparr>))"
  by (simp add: runCompiler_def Let_def prepared_exec_options_other_exec)

theorem runCompiler_exit_status_transparent_witness:
  "map_sum id code (runCompiler example_compiler ''gfortran'' [] ''/tmp/work/prog.f90'' None) =
     Inr 1 \<and>
   map_sum id stderr (runCompiler example_compiler ''gfortran'' [] ''/tmp/work/prog.f90'' None) =
   map_sum id stderr
     (runCompiler
        (example_compiler\<lparr>exec := \<lambda>exe args opts.
           Inr \<lparr>code = 0,
                stdout = ''/a/prog.f90:1: included from /b/prog.f90'',
                stderr = ''./prog.f90:2:3: Error in /tmp/work/prog.f90''\<rparr>\<rparr>)
        ''gfortran'' [] ''/tmp/work/prog.f90'' None)"
proof -
  obtain outcome where
    returned: "runCompiler example_compiler ''gfortran'' [] ''/tmp/work/prog.f90'' None = Inr outcome"
    and status: "code outcome = 1"
    and clean: "runCompiler
        (example_compiler\<lparr>exec := \<lambda>exe args opts.
           Inr (\<lparr>code = 1,
                 stdout = ''/a/prog.f90:1: included from /b/prog.f90'',
                 stderr = ''./prog.f90:2:3: Error in /tmp/work/prog.f90''\<rparr>\<lparr>code := 0\<rparr>)\<rparr>)
        ''gfortran'' [] ''/tmp/work/prog.f90'' None = Inr (outcome\<lparr>code := 0\<rparr>)"
    using runCompiler_exit_status_transparent
      [where self = example_compiler and compilerExe = "''gfortran''" and options = "[]"
         and inputFile = "''/tmp/work/prog.f90''" and execOptions = None,
       OF example_exec_gfortran]
    by auto
  from clean have "runCompiler
        (example_compiler\<lparr>exec := \<lambda>exe args opts.
           Inr \<lparr>code = 0,
                stdout = ''/a/prog.f90:1: included from /b/prog.f90'',
                stderr = ''./prog.f90:2:3: Error in /tmp/work/prog.f90''\<rparr>\<rparr>)
        ''gfortran'' [] ''/tmp/work/prog.f90'' None = Inr (outcome\<lparr>code := 0\<rparr>)"
    by simp
  with returned status show ?thesis
    by simp
qed

end
